theory Spec2Isabelle
  imports Complex_Main
begin

section \<open>The elevator simulation of ElevatorSimulation.tsx\<close>

text \<open>
  The component keeps six React state variables (\<open>currentFloor\<close>, \<open>targetFloor\<close>,
  \<open>state\<close>, \<open>velocity\<close>, \<open>position\<close>, \<open>doorProgress\<close>), advances them from a
  \<open>setInterval\<close> callback every 16 ms, schedules \<open>setTimeout\<close> callbacks while the
  doors are open, and changes \<open>targetFloor\<close> from \<open>handleFloorSelect\<close>.

  Modelling decisions:
  \<^item> JavaScript numbers holding metres, metres per second and the door progress are
    modelled as \<open>real\<close> (exact arithmetic); floor numbers are \<open>int\<close>.
  \<^item> The interval effect lists every state variable it reads as a dependency, so the
    callback is re-created after each change: a tick reads the current values.
  \<^item> \<open>elevatorCarRef.current\<close> is set when the scene is mounted; the model is of the
    mounted component, where the early \<open>return\<close> of the callback is not taken.
  \<^item> A pending \<open>setTimeout\<close> callback is the pair of variables its closure captured.
    All callbacks have the same delay, so they fire in the order they were scheduled;
    when they fire is left open (event \<open>Timeout\<close>).
\<close>

subsection \<open>Configuration\<close>

record config =
  FLOORS :: int
  FLOOR_HEIGHT :: real
  ELEVATOR_SPEED_MAX :: real
  ACCELERATION :: real
  DECELERATION :: real
  DOOR_OPEN_TIME :: real
  DOOR_ANIMATION_TIME :: real

definition CONFIG :: config where
  "CONFIG = \<lparr>FLOORS = 6, FLOOR_HEIGHT = 4, ELEVATOR_SPEED_MAX = 2, ACCELERATION = 1,
     DECELERATION = 1, DOOR_OPEN_TIME = 2000, DOOR_ANIMATION_TIME = 1000\<rparr>"

text \<open>The step of the interval callback: \<^verbatim>\<open>const dt = 0.016\<close>.\<close>

definition dt :: real where
  "dt = 16 / 1000"

subsection \<open>State\<close>

datatype ElevatorState =
  IDLE | DOORS_OPENING | DOORS_OPEN | DOORS_CLOSING | MOVING_UP | MOVING_DOWN

text \<open>
  The closure of the callback passed to \<open>setTimeout\<close>: it reads \<open>state\<close> and
  \<open>targetFloor\<close> of the render in which the interval callback was created.
\<close>

record timeout =
  cb_state :: ElevatorState
  cb_targetFloor :: "int option"

text \<open>
  \<open>currentFloor\<close> is declared \<open>number\<close>, but \<^verbatim>\<open>setCurrentFloor(targetFloor!)\<close> stores
  whatever \<open>targetFloor\<close> holds (the non-null assertion is erased at run time), so the
  field has the run-time type \<open>number | null\<close>, with \<open>None\<close> for \<open>null\<close>.
\<close>

record sim =
  currentFloor :: "int option"
  targetFloor :: "int option"
  state :: ElevatorState
  velocity :: real
  position :: real
  doorProgress :: real
  timeouts :: "timeout list"

text \<open>The initial values given to \<open>useState\<close>; no timer is pending.\<close>

definition initial :: sim where
  "initial = \<lparr>currentFloor = Some 0, targetFloor = None, state = IDLE, velocity = 0,
     position = 0, doorProgress = 0, timeouts = []\<rparr>"

subsection \<open>The interval callback\<close>

text \<open>JavaScript's \<open>ToNumber\<close> on a floor: \<open>null\<close> is \<open>0\<close>.\<close>

definition to_number :: "int option \<Rightarrow> int" where
  "to_number v = (case v of None \<Rightarrow> 0 | Some n \<Rightarrow> n)"

text \<open>
  \<^verbatim>\<open>const targetY = targetFloor !== null ? targetFloor * CONFIG.FLOOR_HEIGHT : currentY\<close>
\<close>

definition targetY :: "config \<Rightarrow> sim \<Rightarrow> real" where
  "targetY cfg s =
     (case targetFloor s of Some t \<Rightarrow> real_of_int t * FLOOR_HEIGHT cfg | None \<Rightarrow> position s)"

definition decelerationDistance :: "config \<Rightarrow> sim \<Rightarrow> real" where
  "decelerationDistance cfg s = (velocity s * velocity s) / (2 * DECELERATION cfg)"

text \<open>\<open>newVelocity\<close> after the deceleration / acceleration branch.\<close>

definition newVelocity :: "config \<Rightarrow> real \<Rightarrow> sim \<Rightarrow> real" where
  "newVelocity cfg d s =
     (if \<bar>targetY cfg s - position s\<bar> \<le> decelerationDistance cfg s + 1 / 10
      then max 0 (velocity s - DECELERATION cfg * d)
      else if velocity s < ELEVATOR_SPEED_MAX cfg
           then min (ELEVATOR_SPEED_MAX cfg) (velocity s + ACCELERATION cfg * d)
           else velocity s)"

text \<open>\<open>newPosition\<close> before the arrival check.\<close>

definition newPosition :: "config \<Rightarrow> real \<Rightarrow> sim \<Rightarrow> real" where
  "newPosition cfg d s =
     position s +
       (if state s = MOVING_UP then newVelocity cfg d s else - newVelocity cfg d s) * d"

text \<open>
  \<^verbatim>\<open>(movingUp && newPosition >= targetY) || (!movingUp && newPosition <= targetY)\<close>
\<close>

definition reached :: "config \<Rightarrow> real \<Rightarrow> sim \<Rightarrow> bool" where
  "reached cfg d s =
     ((state s = MOVING_UP \<and> newPosition cfg d s \<ge> targetY cfg s) \<or>
      (state s \<noteq> MOVING_UP \<and> newPosition cfg d s \<le> targetY cfg s))"

text \<open>The case \<open>MOVING_UP\<close> / \<open>MOVING_DOWN\<close> of the switch.\<close>

definition moving :: "config \<Rightarrow> real \<Rightarrow> sim \<Rightarrow> sim" where
  "moving cfg d s =
     (if reached cfg d s
      then s\<lparr>currentFloor := targetFloor s, targetFloor := None, state := DOORS_OPENING,
             velocity := 0, position := targetY cfg s\<rparr>
      else s\<lparr>velocity := newVelocity cfg d s, position := newPosition cfg d s\<rparr>)"

text \<open>The case \<open>DOORS_CLOSING\<close>: the updater of \<open>setDoorProgress\<close> and its \<open>setState\<close>.\<close>

definition doors_closing :: "config \<Rightarrow> real \<Rightarrow> sim \<Rightarrow> sim" where
  "doors_closing cfg d s =
     (let next = max 0 (doorProgress s - d * (1 / (DOOR_ANIMATION_TIME cfg / 1000)))
      in (if next = 0
          then (case targetFloor s of
                  Some t \<Rightarrow>
                    s\<lparr>state := (if t > to_number (currentFloor s) then MOVING_UP
                                 else MOVING_DOWN)\<rparr>
                | None \<Rightarrow> s)
          else s)\<lparr>doorProgress := next\<rparr>)"

text \<open>The case \<open>DOORS_OPENING\<close>.\<close>

definition doors_opening :: "config \<Rightarrow> real \<Rightarrow> sim \<Rightarrow> sim" where
  "doors_opening cfg d s =
     (let next = min 1 (doorProgress s + d * (1 / (DOOR_ANIMATION_TIME cfg / 1000)))
      in (if next = 1 then s\<lparr>state := DOORS_OPEN\<rparr> else s)\<lparr>doorProgress := next\<rparr>)"

text \<open>
  The case \<open>DOORS_OPEN\<close>: one more \<open>setTimeout\<close>, whose callback closes over the
  \<open>state\<close> and \<open>targetFloor\<close> of this render. Nothing is cancelled: the source has
  no \<open>clearTimeout\<close>.
\<close>

definition doors_open :: "sim \<Rightarrow> sim" where
  "doors_open s =
     s\<lparr>timeouts := timeouts s @ [\<lparr>cb_state = state s, cb_targetFloor = targetFloor s\<rparr>]\<rparr>"

text \<open>One run of the interval callback, with the step \<open>d\<close> (the source fixes \<open>d = dt\<close>).\<close>

definition tick :: "config \<Rightarrow> real \<Rightarrow> sim \<Rightarrow> sim" where
  "tick cfg d s =
     (case state s of
        IDLE \<Rightarrow>
          (if targetFloor s \<noteq> None \<and> targetFloor s \<noteq> currentFloor s
           then s\<lparr>state := DOORS_CLOSING\<rparr> else s)
      | DOORS_CLOSING \<Rightarrow> doors_closing cfg d s
      | MOVING_UP \<Rightarrow> moving cfg d s
      | MOVING_DOWN \<Rightarrow> moving cfg d s
      | DOORS_OPENING \<Rightarrow> doors_opening cfg d s
      | DOORS_OPEN \<Rightarrow> doors_open s)"

subsection \<open>The timer callback\<close>

text \<open>
  \<^verbatim>\<open>if (state === DOORS_OPEN) setState(targetFloor !== null ? DOORS_CLOSING : IDLE)\<close>
  where \<open>state\<close> and \<open>targetFloor\<close> are the captured variables.
\<close>

definition timeout_callback :: "timeout \<Rightarrow> sim \<Rightarrow> sim" where
  "timeout_callback c s =
     (if cb_state c = DOORS_OPEN
      then s\<lparr>state := (if cb_targetFloor c \<noteq> None then DOORS_CLOSING else IDLE)\<rparr>
      else s)"

text \<open>The oldest pending callback fires and leaves the queue.\<close>

definition fire_timeout :: "sim \<Rightarrow> sim" where
  "fire_timeout s =
     (case timeouts s of [] \<Rightarrow> s | c # cs \<Rightarrow> timeout_callback c (s\<lparr>timeouts := cs\<rparr>))"

subsection \<open>Floor selection\<close>

definition handleFloorSelect :: "int \<Rightarrow> sim \<Rightarrow> sim" where
  "handleFloorSelect flr s =
     (if currentFloor s = Some flr \<or> state s = MOVING_UP \<or> state s = MOVING_DOWN \<or>
         state s = DOORS_CLOSING
      then s
      else s\<lparr>targetFloor := Some flr\<rparr>)"

text \<open>
  The result type the specification gives \<open>selectFloor\<close>. The handler of the source is
  declared without a return type and returns no value on either path (\<^verbatim>\<open>return;\<close> and
  falling off the end both give \<open>undefined\<close>): \<open>None\<close> stands for \<open>undefined\<close>.
\<close>

datatype reason = AlreadyAtFloor | InTransit | DoorsClosing | FloorOutOfRange

datatype select_result = Accepted | Rejected reason

definition handleFloorSelect_returns :: "int \<Rightarrow> sim \<Rightarrow> select_result option" where
  "handleFloorSelect_returns flr s =
     (if currentFloor s = Some flr \<or> state s = MOVING_UP \<or> state s = MOVING_DOWN \<or>
         state s = DOORS_CLOSING
      then None
      else None)"

text \<open>
  The floor buttons: \<^verbatim>\<open>Array.from({ length: CONFIG.FLOORS }, (_, i) => i)\<close>. They are the
  only callers of \<open>handleFloorSelect\<close>.
\<close>

definition button_floors :: "config \<Rightarrow> int list" where
  "button_floors cfg = [0 .. FLOORS cfg - 1]"

subsection \<open>Runs\<close>

datatype event = Tick | Select int | Timeout

fun step :: "config \<Rightarrow> sim \<Rightarrow> event \<Rightarrow> sim" where
  "step cfg s Tick = tick cfg dt s"
| "step cfg s (Select flr) = handleFloorSelect flr s"
| "step cfg s Timeout = fire_timeout s"

definition run :: "config \<Rightarrow> event list \<Rightarrow> sim" where
  "run cfg es = foldl (step cfg) initial es"

text \<open>An event the mounted component can receive: a click is on one of its buttons.\<close>

fun possible :: "config \<Rightarrow> event \<Rightarrow> bool" where
  "possible cfg (Select flr) = (0 \<le> flr \<and> flr < FLOORS cfg)"
| "possible cfg Tick = True"
| "possible cfg Timeout = True"

subsection \<open>Predicates of the properties\<close>

text \<open>The ranges of the three numeric state variables.\<close>

definition in_bounds :: "config \<Rightarrow> sim \<Rightarrow> bool" where
  "in_bounds cfg s =
     (0 \<le> position s \<and> position s \<le> real_of_int (FLOORS cfg - 1) * FLOOR_HEIGHT cfg \<and>
      0 \<le> velocity s \<and> velocity s \<le> ELEVATOR_SPEED_MAX cfg \<and>
      0 \<le> doorProgress s \<and> doorProgress s \<le> 1)"

text \<open>
  The five constraints the specification puts on a configuration. The source has no
  such check; the predicate is used to state hypotheses only.
\<close>

definition admissible :: "config \<Rightarrow> bool" where
  "admissible cfg =
     (2 \<le> FLOORS cfg \<and> 0 < FLOOR_HEIGHT cfg \<and> 0 < ELEVATOR_SPEED_MAX cfg \<and>
      0 < ACCELERATION cfg \<and> 0 < DECELERATION cfg)"

text \<open>
  The pending target is one of the buttons' floors, and a moving car has a target.
\<close>

definition target_ok :: "config \<Rightarrow> sim \<Rightarrow> bool" where
  "target_ok cfg s =
     ((case targetFloor s of None \<Rightarrow> True | Some t \<Rightarrow> 0 \<le> t \<and> t < FLOORS cfg) \<and>
      (state s = MOVING_UP \<or> state s = MOVING_DOWN \<longrightarrow> targetFloor s \<noteq> None))"

definition sim_inv :: "config \<Rightarrow> sim \<Rightarrow> bool" where
  "sim_inv cfg s = (in_bounds cfg s \<and> target_ok cfg s)"

text \<open>A state with the doors open at floor 1, no request and no pending timer.\<close>

definition open_at_1 :: sim where
  "open_at_1 = \<lparr>currentFloor = Some 1, targetFloor = None, state = DOORS_OPEN, velocity = 0,
     position = 4, doorProgress = 1, timeouts = []\<rparr>"

text \<open>A car moving up, one millimetre below floor 1.\<close>

definition below_1 :: sim where
  "below_1 = \<lparr>currentFloor = Some 0, targetFloor = Some 1, state = MOVING_UP,
     velocity = 1 / 2, position = 3999 / 1000, doorProgress = 0, timeouts = []\<rparr>"

subsection \<open>The trip from the initial state\<close>







section \<open>Properties\<close>

lemmas tick_defs = tick_def moving_def doors_closing_def doors_opening_def doors_open_def

lemmas run_defs = run_def initial_def handleFloorSelect_def fire_timeout_def
  timeout_callback_def CONFIG_def dt_def to_number_def targetY_def newVelocity_def
  newPosition_def reached_def decelerationDistance_def

subsection \<open>The bounds are invariant\<close>

lemma newVelocity_bounds:
  assumes "0 \<le> velocity s" "velocity s \<le> ELEVATOR_SPEED_MAX cfg"
    and "0 \<le> DECELERATION cfg * d" "0 \<le> ACCELERATION cfg * d"
  shows "0 \<le> newVelocity cfg d s \<and> newVelocity cfg d s \<le> ELEVATOR_SPEED_MAX cfg"
  using assms by (auto simp: newVelocity_def)

lemma targetY_bounds:
  assumes "in_bounds cfg s" "target_ok cfg s" "0 \<le> FLOOR_HEIGHT cfg"
  shows "0 \<le> targetY cfg s \<and>
         targetY cfg s \<le> real_of_int (FLOORS cfg - 1) * FLOOR_HEIGHT cfg"
proof (cases "targetFloor s")
  case None
  then show ?thesis using assms(1) by (simp add: targetY_def in_bounds_def)
next
  case (Some t)
  then have t: "0 \<le> t" "t \<le> FLOORS cfg - 1"
    using assms(2) by (auto simp: target_ok_def)
  have "real_of_int t * FLOOR_HEIGHT cfg \<le> real_of_int (FLOORS cfg - 1) * FLOOR_HEIGHT cfg"
    using t(2) assms(3) by (intro mult_right_mono) simp_all
  moreover have "0 \<le> real_of_int t * FLOOR_HEIGHT cfg"
    using t(1) assms(3) by simp
  ultimately show ?thesis by (simp add: targetY_def Some)
qed

lemma moving_inv:
  assumes a: "admissible cfg" and d: "0 \<le> d" and i: "sim_inv cfg s"
    and m: "state s = MOVING_UP \<or> state s = MOVING_DOWN"
  shows "sim_inv cfg (moving cfg d s)"
proof -
  have b: "in_bounds cfg s" and tk: "target_ok cfg s" using i by (auto simp: sim_inv_def)
  have h: "0 \<le> FLOOR_HEIGHT cfg" and mx: "0 \<le> ELEVATOR_SPEED_MAX cfg"
    and dd: "0 \<le> DECELERATION cfg * d" and ad: "0 \<le> ACCELERATION cfg * d"
    using a d by (auto simp: admissible_def)
  have v: "0 \<le> velocity s" "velocity s \<le> ELEVATOR_SPEED_MAX cfg"
    and p: "0 \<le> position s" "position s \<le> real_of_int (FLOORS cfg - 1) * FLOOR_HEIGHT cfg"
    and dp: "0 \<le> doorProgress s" "doorProgress s \<le> 1"
    using b by (auto simp: in_bounds_def)
  have nv: "0 \<le> newVelocity cfg d s" "newVelocity cfg d s \<le> ELEVATOR_SPEED_MAX cfg"
    using newVelocity_bounds [OF v dd ad] by auto
  have ty: "0 \<le> targetY cfg s"
    "targetY cfg s \<le> real_of_int (FLOORS cfg - 1) * FLOOR_HEIGHT cfg"
    using targetY_bounds [OF b tk h] by auto
  have nvd: "0 \<le> newVelocity cfg d s * d" using nv(1) d by simp
  show ?thesis
  proof (cases "reached cfg d s")
    case True
    then show ?thesis
      using ty mx dp by (simp add: moving_def sim_inv_def in_bounds_def target_ok_def)
  next
    case False
    have np: "0 \<le> newPosition cfg d s \<and>
              newPosition cfg d s \<le> real_of_int (FLOORS cfg - 1) * FLOOR_HEIGHT cfg"
      using False m nvd ty p by (auto simp: reached_def newPosition_def)
    show ?thesis
      using False np nv dp tk m by (auto simp: moving_def sim_inv_def in_bounds_def target_ok_def)
  qed
qed

lemma tick_inv:
  assumes a: "admissible cfg" and t: "0 < DOOR_ANIMATION_TIME cfg" and d: "0 \<le> d"
    and i: "sim_inv cfg s"
  shows "sim_inv cfg (tick cfg d s)"
proof (cases "state s")
  case IDLE
  then show ?thesis using i by (auto simp: tick_def sim_inv_def in_bounds_def target_ok_def)
next
  case DOORS_OPENING
  have "0 \<le> d * (1 / (DOOR_ANIMATION_TIME cfg / 1000))" using t d by simp
  then show ?thesis using i DOORS_OPENING
    by (auto simp: tick_def doors_opening_def Let_def sim_inv_def in_bounds_def target_ok_def)
next
  case DOORS_OPEN
  then show ?thesis using i
    by (auto simp: tick_def doors_open_def sim_inv_def in_bounds_def target_ok_def)
next
  case DOORS_CLOSING
  have "0 \<le> d * (1 / (DOOR_ANIMATION_TIME cfg / 1000))" using t d by simp
  then show ?thesis using i DOORS_CLOSING
    by (auto simp: tick_def doors_closing_def Let_def sim_inv_def in_bounds_def target_ok_def
        split: option.splits)
next
  case MOVING_UP
  then show ?thesis using moving_inv [OF a d i] by (simp add: tick_def)
next
  case MOVING_DOWN
  then show ?thesis using moving_inv [OF a d i] by (simp add: tick_def)
qed

lemma handleFloorSelect_inv:
  assumes "sim_inv cfg s" "0 \<le> f" "f < FLOORS cfg"
  shows "sim_inv cfg (handleFloorSelect f s)"
  using assms by (auto simp: handleFloorSelect_def sim_inv_def in_bounds_def target_ok_def)

lemma fire_timeout_inv:
  assumes "sim_inv cfg s"
  shows "sim_inv cfg (fire_timeout s)"
  using assms
  by (auto simp: fire_timeout_def timeout_callback_def sim_inv_def in_bounds_def target_ok_def
      split: list.splits)

lemma step_inv:
  assumes "admissible cfg" "0 < DOOR_ANIMATION_TIME cfg" "sim_inv cfg s" "possible cfg e"
  shows "sim_inv cfg (step cfg s e)"
proof (cases e)
  case Tick
  then show ?thesis using tick_inv [OF assms(1,2) _ assms(3), of dt] by (simp add: dt_def)
next
  case (Select f)
  then show ?thesis using handleFloorSelect_inv [OF assms(3), of f] assms(4) by simp
next
  case Timeout
  then show ?thesis using fire_timeout_inv [OF assms(3)] by simp
qed

lemma foldl_inv:
  assumes "admissible cfg" "0 < DOOR_ANIMATION_TIME cfg"
  shows "sim_inv cfg s \<Longrightarrow> \<forall>e\<in>set es. possible cfg e \<Longrightarrow> sim_inv cfg (foldl (step cfg) s es)"
proof (induction es arbitrary: s)
  case Nil
  then show ?case by simp
next
  case (Cons e es)
  then show ?case using step_inv [OF assms, of s e] by simp
qed

lemma initial_inv: "admissible cfg \<Longrightarrow> sim_inv cfg initial"
  by (simp add: sim_inv_def in_bounds_def target_ok_def initial_def admissible_def)

lemma run_inv:
  assumes "admissible cfg" "0 < DOOR_ANIMATION_TIME cfg" "\<forall>e\<in>set es. possible cfg e"
  shows "sim_inv cfg (run cfg es)"
  unfolding run_def using foldl_inv [OF assms(1,2) initial_inv [OF assms(1)] assms(3)] .

lemma CONFIG_admissible: "admissible CONFIG \<and> 0 < DOOR_ANIMATION_TIME CONFIG"
  by (simp add: admissible_def CONFIG_def)

lemma below_1_tick: "state (tick CONFIG dt below_1) = DOORS_OPENING"
  by (simp add: below_1_def tick_defs run_defs)

lemma moving_after_3: "run CONFIG [Select 1, Tick, Tick] =
   \<lparr>currentFloor = Some 0, targetFloor = Some 1, state = MOVING_UP, velocity = 0,
    position = 0, doorProgress = 0, timeouts = []\<rparr>"
  by (simp add: run_defs tick_defs)

subsection \<open>Bounds\<close>

text \<open>
  C2. In every state reached from the initial state by ticks, clicks on the floor
  buttons and firing timers, \<open>0 \<le> position \<le> (FLOORS - 1) * FLOOR_HEIGHT\<close>,
  \<open>0 \<le> velocity \<le> ELEVATOR_SPEED_MAX\<close> and \<open>0 \<le> doorProgress \<le> 1\<close>, for every
  configuration that meets the five constraints and has a positive door animation time.
\<close>

theorem bounds_reachable:
  assumes "admissible cfg" and "0 < DOOR_ANIMATION_TIME cfg"
    and "\<forall>e\<in>set es. possible cfg e"
  shows "in_bounds cfg (run cfg es)"
  using run_inv [OF assms] by (simp add: sim_inv_def)

theorem bounds_reachable_witness:
  "admissible CONFIG \<and> 0 < DOOR_ANIMATION_TIME CONFIG \<and>
   possible CONFIG (Select 5) \<and> possible CONFIG Tick \<and>
   in_bounds CONFIG (run CONFIG [Select 5, Tick, Tick, Tick, Tick])"
proof -
  have e: "\<forall>e\<in>set [Select 5, Tick, Tick, Tick, Tick]. possible CONFIG e"
    by (simp add: CONFIG_def)
  have a: "admissible CONFIG" and t: "0 < DOOR_ANIMATION_TIME CONFIG"
    using CONFIG_admissible by auto
  show ?thesis using bounds_reachable [OF a t e] a t by (simp add: CONFIG_def)
qed

subsection \<open>Arrival\<close>

text \<open>
  C3. The tick of a moving car that sets the phase to \<open>DOORS_OPENING\<close> sets, in the same
  step, \<open>velocity\<close> to exactly \<open>0\<close>, \<open>position\<close> to exactly
  \<open>targetFloor * FLOOR_HEIGHT\<close>, \<open>currentFloor\<close> to the target, and \<open>targetFloor\<close> to
  none. This holds for every step size and every state of a moving car with a target.
\<close>

theorem arrival_snaps:
  assumes "state s = MOVING_UP \<or> state s = MOVING_DOWN"
    and "targetFloor s = Some t"
    and "state (tick cfg d s) = DOORS_OPENING"
  shows "velocity (tick cfg d s) = 0 \<and>
         position (tick cfg d s) = real_of_int t * FLOOR_HEIGHT cfg \<and>
         currentFloor (tick cfg d s) = Some t \<and> targetFloor (tick cfg d s) = None"
proof -
  have m: "tick cfg d s = moving cfg d s"
    using assms(1) by (auto simp: tick_def)
  have r: "reached cfg d s"
    using assms(1,3) unfolding m by (auto simp: moving_def split: if_splits)
  have y: "targetY cfg s = real_of_int t * FLOOR_HEIGHT cfg"
    by (simp add: targetY_def assms(2))
  show ?thesis
    unfolding m by (simp add: moving_def r y assms(2))
qed

theorem arrival_snaps_witness:
  "state below_1 = MOVING_UP \<and> targetFloor below_1 = Some 1 \<and>
   state (tick CONFIG dt below_1) = DOORS_OPENING \<and>
   velocity (tick CONFIG dt below_1) = 0 \<and> position (tick CONFIG dt below_1) = 4 \<and>
   currentFloor (tick CONFIG dt below_1) = Some 1 \<and>
   targetFloor (tick CONFIG dt below_1) = None"
proof -
  have a: "state below_1 = MOVING_UP \<or> state below_1 = MOVING_DOWN"
    and b: "targetFloor below_1 = Some 1"
    by (simp_all add: below_1_def)
  show ?thesis
    using arrival_snaps [OF a b below_1_tick] below_1_tick a b
    by (simp add: CONFIG_def below_1_def)
qed

subsection \<open>Kinematics\<close>

text \<open>
  C4. In a reachable state with phase \<open>MOVING_UP\<close> or \<open>MOVING_DOWN\<close> the car has a
  target \<open>t\<close>, and a tick with step \<open>d\<close> computes the deceleration distance
  \<open>velocity\<^sup>2 / (2 * DECELERATION)\<close>; if \<open>\<bar>t * FLOOR_HEIGHT - position\<bar>\<close> is at most that
  distance plus \<open>0.1\<close> the new velocity is \<open>max 0 (velocity - DECELERATION * d)\<close>,
  otherwise \<open>min ELEVATOR_SPEED_MAX (velocity + ACCELERATION * d)\<close>; the new position
  is the old one plus the new velocity times \<open>d\<close>, signed by the direction. These two
  values are what the tick stores, unless the arrival test on the new position fires
  (then C3 applies).
\<close>

theorem moving_kinematics:
  assumes "admissible cfg" and "0 < DOOR_ANIMATION_TIME cfg"
    and "\<forall>e\<in>set es. possible cfg e" and "s = run cfg es" and "0 \<le> d"
    and "state s = MOVING_UP \<or> state s = MOVING_DOWN"
  shows "\<exists>t. targetFloor s = Some t \<and>
     newVelocity cfg d s =
       (if \<bar>real_of_int t * FLOOR_HEIGHT cfg - position s\<bar>
             \<le> (velocity s)\<^sup>2 / (2 * DECELERATION cfg) + 1 / 10
        then max 0 (velocity s - DECELERATION cfg * d)
        else min (ELEVATOR_SPEED_MAX cfg) (velocity s + ACCELERATION cfg * d)) \<and>
     newPosition cfg d s =
       position s + (if state s = MOVING_UP then 1 else - 1) * newVelocity cfg d s * d \<and>
     tick cfg d s =
       (if reached cfg d s
        then s\<lparr>currentFloor := Some t, targetFloor := None, state := DOORS_OPENING,
               velocity := 0, position := real_of_int t * FLOOR_HEIGHT cfg\<rparr>
        else s\<lparr>velocity := newVelocity cfg d s, position := newPosition cfg d s\<rparr>)"
proof -
  have i: "sim_inv cfg s" using run_inv [OF assms(1,2,3)] assms(4) by simp
  obtain t where t: "targetFloor s = Some t"
    using i assms(6) by (auto simp: sim_inv_def target_ok_def)
  have v: "velocity s \<le> ELEVATOR_SPEED_MAX cfg"
    using i by (simp add: sim_inv_def in_bounds_def)
  have ad: "0 \<le> ACCELERATION cfg * d"
    using assms(1,5) by (simp add: admissible_def)
  have y: "targetY cfg s = real_of_int t * FLOOR_HEIGHT cfg"
    by (simp add: targetY_def t)
  have nv: "newVelocity cfg d s =
       (if \<bar>real_of_int t * FLOOR_HEIGHT cfg - position s\<bar>
             \<le> (velocity s)\<^sup>2 / (2 * DECELERATION cfg) + 1 / 10
        then max 0 (velocity s - DECELERATION cfg * d)
        else min (ELEVATOR_SPEED_MAX cfg) (velocity s + ACCELERATION cfg * d))"
    using v ad by (auto simp: newVelocity_def y decelerationDistance_def power2_eq_square)
  have np: "newPosition cfg d s =
       position s + (if state s = MOVING_UP then 1 else - 1) * newVelocity cfg d s * d"
    by (simp add: newPosition_def)
  have tk: "tick cfg d s =
       (if reached cfg d s
        then s\<lparr>currentFloor := Some t, targetFloor := None, state := DOORS_OPENING,
               velocity := 0, position := real_of_int t * FLOOR_HEIGHT cfg\<rparr>
        else s\<lparr>velocity := newVelocity cfg d s, position := newPosition cfg d s\<rparr>)"
    using assms(6) by (auto simp: tick_def moving_def y t)
  show ?thesis using t nv np tk by blast
qed

theorem moving_kinematics_witness:
  "admissible CONFIG \<and> 0 < DOOR_ANIMATION_TIME CONFIG \<and>
   possible CONFIG (Select 1) \<and> possible CONFIG Tick \<and> 0 \<le> dt \<and>
   state (run CONFIG [Select 1, Tick, Tick]) = MOVING_UP \<and>
   newVelocity CONFIG dt (run CONFIG [Select 1, Tick, Tick]) = 2 / 125 \<and>
   newPosition CONFIG dt (run CONFIG [Select 1, Tick, Tick]) = 4 / 15625 \<and>
   tick CONFIG dt (run CONFIG [Select 1, Tick, Tick]) =
     (run CONFIG [Select 1, Tick, Tick])\<lparr>velocity := 2 / 125, position := 4 / 15625\<rparr>"
proof -
  have e: "\<forall>e\<in>set [Select 1, Tick, Tick]. possible CONFIG e"
    by (simp add: CONFIG_def)
  have a: "admissible CONFIG" and t: "0 < DOOR_ANIMATION_TIME CONFIG"
    using CONFIG_admissible by auto
  have d: "0 \<le> dt" by (simp add: dt_def)
  have m: "state (run CONFIG [Select 1, Tick, Tick]) = MOVING_UP \<or>
           state (run CONFIG [Select 1, Tick, Tick]) = MOVING_DOWN"
    by (simp add: moving_after_3)
  have r: "\<not> reached CONFIG dt (run CONFIG [Select 1, Tick, Tick])"
    unfolding moving_after_3
    by (simp add: reached_def newPosition_def newVelocity_def targetY_def
        decelerationDistance_def CONFIG_def dt_def)
  show ?thesis
    using moving_kinematics [OF a t e refl d m] a t d r
    unfolding moving_after_3
    by (simp add: newVelocity_def newPosition_def targetY_def decelerationDistance_def
        tick_defs CONFIG_def dt_def)
qed

subsection \<open>The request gate\<close>

text \<open>
  C5, as the source has it. \<open>handleFloorSelect\<close> of the current floor changes
  nothing; so does every call while the phase is \<open>MOVING_UP\<close>, \<open>MOVING_DOWN\<close> or
  \<open>DOORS_CLOSING\<close>; in the phases \<open>IDLE\<close>, \<open>DOORS_OPENING\<close> and \<open>DOORS_OPEN\<close> a call
  with another floor sets \<open>targetFloor\<close> to that floor and changes nothing else. The
  handler returns no value in any case.
\<close>

theorem handleFloorSelect_gate:
  "(currentFloor s = Some f \<longrightarrow> handleFloorSelect f s = s) \<and>
   (state s = MOVING_UP \<or> state s = MOVING_DOWN \<or> state s = DOORS_CLOSING \<longrightarrow>
      handleFloorSelect f s = s) \<and>
   (currentFloor s \<noteq> Some f \<and>
    (state s = IDLE \<or> state s = DOORS_OPENING \<or> state s = DOORS_OPEN) \<longrightarrow>
      handleFloorSelect f s = s\<lparr>targetFloor := Some f\<rparr>) \<and>
   handleFloorSelect_returns f s = None"
  by (auto simp: handleFloorSelect_def handleFloorSelect_returns_def)

theorem handleFloorSelect_gate_witness:
  "currentFloor initial = Some 0 \<and> handleFloorSelect 0 initial = initial \<and>
   state below_1 = MOVING_UP \<and> handleFloorSelect 3 below_1 = below_1 \<and>
   currentFloor initial \<noteq> Some 3 \<and> state initial = IDLE \<and>
   handleFloorSelect 3 initial = initial\<lparr>targetFloor := Some 3\<rparr>"
  using handleFloorSelect_gate [of initial 0] handleFloorSelect_gate [of below_1 3]
    handleFloorSelect_gate [of initial 3]
  by (simp add: initial_def below_1_def)

text \<open>
  At the initial state the car is at floor 0; selecting floor 0 returns no value, so
  in particular no \<open>Rejected AlreadyAtFloor\<close>.
\<close>

theorem select_current_returns_nothing:
  "currentFloor initial = Some 0 \<and>
   handleFloorSelect_returns 0 initial \<noteq> Some (Rejected AlreadyAtFloor)"
  by (simp add: initial_def handleFloorSelect_returns_def)

text \<open>
  C8, as the source has it. \<open>handleFloorSelect\<close> returns no value; it leaves the state
  unchanged exactly when the floor is the current one or the phase is \<open>MOVING_UP\<close>,
  \<open>MOVING_DOWN\<close> or \<open>DOORS_CLOSING\<close>, and otherwise sets \<open>targetFloor\<close>, whatever the
  floor number is: the handler has no range check. The floors the user interface
  passes to it are those of the buttons, \<open>0\<close> to \<open>FLOORS - 1\<close>.
\<close>

theorem handleFloorSelect_no_range_check:
  "handleFloorSelect_returns f s = None \<and>
   handleFloorSelect f s =
     (if currentFloor s = Some f \<or> state s \<in> {MOVING_UP, MOVING_DOWN, DOORS_CLOSING}
      then s else s\<lparr>targetFloor := Some f\<rparr>) \<and>
   set (button_floors cfg) = {f. 0 \<le> f \<and> f < FLOORS cfg}"
  by (auto simp: handleFloorSelect_def handleFloorSelect_returns_def button_floors_def)

text \<open>
  Floor 7 is not a floor of the six-floor building, yet selecting it in the initial
  state changes the state and returns no \<open>Rejected FloorOutOfRange\<close>.
\<close>

theorem select_out_of_range_admitted:
  "7 \<notin> set (button_floors CONFIG) \<and>
   handleFloorSelect 7 initial = initial\<lparr>targetFloor := Some 7\<rparr> \<and>
   handleFloorSelect 7 initial \<noteq> initial \<and>
   handleFloorSelect_returns 7 initial \<noteq> Some (Rejected FloorOutOfRange)"
  by (simp add: handleFloorSelect_def handleFloorSelect_returns_def initial_def
      button_floors_def CONFIG_def)

subsection \<open>Frame of a tick\<close>

text \<open>
  C10. A tick in a phase other than \<open>MOVING_UP\<close> and \<open>MOVING_DOWN\<close> leaves \<open>position\<close>,
  \<open>velocity\<close>, \<open>currentFloor\<close> and \<open>targetFloor\<close> unchanged. A tick in \<open>MOVING_UP\<close> or
  \<open>MOVING_DOWN\<close> leaves \<open>doorProgress\<close> unchanged, and leaves \<open>currentFloor\<close> and
  \<open>targetFloor\<close> unchanged unless the arrival test fires.
\<close>

theorem tick_frame:
  "(state s \<noteq> MOVING_UP \<and> state s \<noteq> MOVING_DOWN \<longrightarrow>
      position (tick cfg d s) = position s \<and> velocity (tick cfg d s) = velocity s \<and>
      currentFloor (tick cfg d s) = currentFloor s \<and>
      targetFloor (tick cfg d s) = targetFloor s) \<and>
   (state s = MOVING_UP \<or> state s = MOVING_DOWN \<longrightarrow>
      doorProgress (tick cfg d s) = doorProgress s \<and>
      (\<not> reached cfg d s \<longrightarrow>
         currentFloor (tick cfg d s) = currentFloor s \<and>
         targetFloor (tick cfg d s) = targetFloor s))"
  by (cases "state s") (auto simp: tick_defs Let_def split: option.splits)

theorem tick_frame_witness:
  "state (run CONFIG [Select 1, Tick]) \<noteq> MOVING_UP \<and>
   state (run CONFIG [Select 1, Tick]) \<noteq> MOVING_DOWN \<and>
   targetFloor (tick CONFIG dt (run CONFIG [Select 1, Tick])) = Some 1 \<and>
   position (tick CONFIG dt (run CONFIG [Select 1, Tick])) = 0 \<and>
   state (run CONFIG [Select 1, Tick, Tick]) = MOVING_UP \<and>
   \<not> reached CONFIG dt (run CONFIG [Select 1, Tick, Tick]) \<and>
   doorProgress (tick CONFIG dt (run CONFIG [Select 1, Tick, Tick])) = 0 \<and>
   currentFloor (tick CONFIG dt (run CONFIG [Select 1, Tick, Tick])) = Some 0 \<and>
   targetFloor (tick CONFIG dt (run CONFIG [Select 1, Tick, Tick])) = Some 1"
proof -
  have c: "run CONFIG [Select 1, Tick] =
     \<lparr>currentFloor = Some 0, targetFloor = Some 1, state = DOORS_CLOSING, velocity = 0,
      position = 0, doorProgress = 0, timeouts = []\<rparr>"
    by (simp add: run_defs tick_defs)
  have r: "\<not> reached CONFIG dt (run CONFIG [Select 1, Tick, Tick])"
    unfolding moving_after_3
    by (simp add: reached_def newPosition_def newVelocity_def targetY_def
        decelerationDistance_def CONFIG_def dt_def)
  show ?thesis
    using tick_frame [of "run CONFIG [Select 1, Tick]" CONFIG dt]
      tick_frame [of "run CONFIG [Select 1, Tick, Tick]" CONFIG dt] r
    unfolding c moving_after_3
    by (simp add: tick_defs run_defs)
qed

subsection \<open>The car stalls before it arrives\<close>


























subsection \<open>The door-hold timer\<close>





subsection \<open>The handlers at a state with the doors open\<close>

text \<open>
  The two lemmas below evaluate the handlers at \<open>open_at_1\<close>, a state with the doors
  open that is given directly: by \<open>stalls_before_arrival\<close> no run from the initial
  state reaches it. Two ticks in \<open>DOORS_OPEN\<close> leave two pending timers, since each
  tick in that phase schedules one more and nothing cancels the first.
\<close>

lemma timeouts_stack:
  "state open_at_1 = DOORS_OPEN \<and> timeouts open_at_1 = [] \<and>
   timeouts (foldl (step CONFIG) open_at_1 [Tick, Tick]) =
     [\<lparr>cb_state = DOORS_OPEN, cb_targetFloor = None\<rparr>,
      \<lparr>cb_state = DOORS_OPEN, cb_targetFloor = None\<rparr>] \<and>
   length (timeouts (foldl (step CONFIG) open_at_1 [Tick, Tick])) = 2"
  by (simp add: open_at_1_def tick_defs)

text \<open>
  After two ticks at \<open>open_at_1\<close> the first timer fires and sets the phase to
  \<open>IDLE\<close>; floor 0 is selected and the next tick sets the phase to \<open>DOORS_CLOSING\<close>.
  The second timer then fires: its callback tests the phase it captured
  (\<open>DOORS_OPEN\<close>), not the current one, and sets the phase to \<open>IDLE\<close>.
\<close>

lemma stale_timeout_fires:
  "state (foldl (step CONFIG) open_at_1 [Tick, Tick, Timeout, Select 0, Tick]) = DOORS_CLOSING \<and>
   timeouts (foldl (step CONFIG) open_at_1 [Tick, Tick, Timeout, Select 0, Tick]) =
     [\<lparr>cb_state = DOORS_OPEN, cb_targetFloor = None\<rparr>] \<and>
   state (foldl (step CONFIG) open_at_1 [Tick, Tick, Timeout, Select 0, Tick, Timeout]) = IDLE"
  by (simp add: open_at_1_def tick_defs fire_timeout_def timeout_callback_def
      handleFloorSelect_def)

end
